theory Spec2Isabelle
  imports Main "HOL-Library.Sublist"
begin

section \<open>Channel errors\<close>

text \<open>
  Go strings are byte sequences; they are modelled as \<open>string\<close> (a list of 8-bit
  characters). A \<open>*ChannelError\<close> that is not nil is modelled by the value it points to.
\<close>

record ChannelError =
  code :: string
  extCode :: string
  message :: string

subsection \<open>fmt.Sprintf on string arguments\<close>

text \<open>
  \<open>NewChannelError\<close> runs its message through \<open>fmt.Sprintf(message, args...)\<close>. Every
  caller in the package passes string arguments, and the only directives its own format
  strings use are \<open>%s\<close>. The model below covers bytes other than \<open>%\<close> (copied), \<open>%%\<close>,
  \<open>%s\<close> (with and without an operand left), a trailing \<open>%\<close>, and operands left over at
  the end. Everything else of the directive grammar (flags, width, precision, argument
  indexes, other verbs) is not modelled: from the first such directive on, the output is
  whatever the parameter \<open>directive\<close> says, so a theorem holds for every behaviour of
  the unmodelled part.
\<close>

fun joinWith :: "string \<Rightarrow> string list \<Rightarrow> string" where
  "joinWith sep [] = []"
| "joinWith sep [x] = x"
| "joinWith sep (x # y # ys) = x @ sep @ joinWith sep (y # ys)"

fun Sprintf :: "(string \<Rightarrow> string list \<Rightarrow> string) \<Rightarrow> string \<Rightarrow> string list \<Rightarrow> string" where
  "Sprintf directive [] [] = []"
| "Sprintf directive [] (a # as) =
     ''%!(EXTRA '' @ joinWith '', '' (map (\<lambda>x. ''string='' @ x) (a # as)) @ '')''"
| "Sprintf directive [c] args =
     (if c = CHR ''%'' then ''%!(NOVERB)'' @ Sprintf directive [] args
      else c # Sprintf directive [] args)"
| "Sprintf directive (c # v # fs) args =
     (if c \<noteq> CHR ''%'' then c # Sprintf directive (v # fs) args
      else if v = CHR ''%'' then CHR ''%'' # Sprintf directive fs args
      else if v = CHR ''s'' then
        (case args of
           [] \<Rightarrow> ''%!s(MISSING)'' @ Sprintf directive fs []
         | a # as \<Rightarrow> a @ Sprintf directive fs as)
      else directive (v # fs) args)"

subsection \<open>Constructors\<close>

definition NewChannelError ::
  "(string \<Rightarrow> string list \<Rightarrow> string) \<Rightarrow> string \<Rightarrow> string \<Rightarrow> string \<Rightarrow> string list \<Rightarrow> ChannelError" where
  "NewChannelError directive c ec msg args =
     \<lparr>code = c, extCode = ec, message = Sprintf directive msg args\<rparr>"

definition ErrorExternal :: "(string \<Rightarrow> string list \<Rightarrow> string) \<Rightarrow> string \<Rightarrow> string \<Rightarrow> ChannelError" where
  "ErrorExternal directive c msg =
     (let msg' = (if msg = [] then Sprintf directive ''Service specific error: %s.'' [c] else msg)
      in NewChannelError directive ''external'' c msg' [])"

definition Redact :: "ChannelError \<Rightarrow> (string \<Rightarrow> string) \<Rightarrow> ChannelError" where
  "Redact e r = \<lparr>code = code e, extCode = extCode e, message = r (message e)\<rparr>"

text \<open>
  \<open>Redact\<close> on pointers. The Go method takes a \<open>*ChannelError\<close> and returns the address
  of a freshly allocated struct. The store is the list of allocated errors, an address is
  an index into it, and \<open>None\<close> is the nil pointer; dereferencing nil (or an address that
  was never allocated) panics, which is the result \<open>None\<close>.
\<close>

type_synonym store = "ChannelError list"

definition Redact_ptr :: "store \<Rightarrow> nat option \<Rightarrow> (string \<Rightarrow> string) \<Rightarrow> (store \<times> nat) option" where
  "Redact_ptr h e r =
     (case e of
        None \<Rightarrow> None
      | Some p \<Rightarrow> if p < length h then Some (h @ [Redact (h ! p) r], length h) else None)"

section \<open>The redactor\<close>

text \<open>
  Modelled from the spec: \<open>stringsx.NewRedactor\<close> (package gocommon, not part of the
  sources at hand) builds the redactor of a channel log. The spec calls a redactor
  ``a function replacing configured secret substrings with a fixed mask token''. The
  model is the replacement that Go's \<open>strings.NewReplacer(v1, mask, v2, mask, ...).Replace\<close>
  performs: the input is scanned from left to right; at each position the first
  configured value (in argument order) that is a prefix of the rest is replaced by the
  mask and the scan goes on behind it; a byte where no value matches is copied. An empty
  value matches at every position, but not twice in a row at the same one
  (\<open>prevMatchEmpty\<close>).
\<close>

fun lookup :: "string list \<Rightarrow> string \<Rightarrow> bool \<Rightarrow> string option" where
  "lookup [] s ignoreRoot = None"
| "lookup (v # vs) s ignoreRoot =
     (if prefix v s \<and> \<not> (ignoreRoot \<and> v = []) then Some v else lookup vs s ignoreRoot)"

lemma lookup_Some:
  "lookup vs s ign = Some v \<Longrightarrow> v \<in> set vs \<and> prefix v s \<and> (ign \<longrightarrow> v \<noteq> [])"
  by (induction vs) (auto split: if_splits)

function Replace :: "string list \<Rightarrow> string \<Rightarrow> bool \<Rightarrow> string \<Rightarrow> string" where
  "Replace vals msk prevMatchEmpty s =
     (case lookup vals s prevMatchEmpty of
        Some v \<Rightarrow> msk @ Replace vals msk (v = []) (drop (length v) s)
      | None \<Rightarrow> (case s of [] \<Rightarrow> [] | c # cs \<Rightarrow> c # Replace vals msk False cs))"
  by pat_completeness auto
termination
proof (relation "measure (\<lambda>(vals, msk, p, s). 2 * length s + (if p then 0 else 1))")
  show "wf (measure (\<lambda>(vals, msk, p, s). 2 * length s + (if p then 0 else (1::nat))))"
    by simp
next
  fix vals :: "string list" and msk :: string and prevMatchEmpty :: bool and s v :: string
  assume "lookup vals s prevMatchEmpty = Some v"
  then have pre: "prefix v s" and ne: "prevMatchEmpty \<longrightarrow> v \<noteq> []"
    using lookup_Some by blast+
  from pre have len: "length v \<le> length s"
    by (rule prefix_length_le)
  show "((vals, msk, v = [], drop (length v) s), (vals, msk, prevMatchEmpty, s))
        \<in> measure (\<lambda>(vals, msk, p, s). 2 * length s + (if p then 0 else 1))"
  proof (cases "v = []")
    case True
    with ne show ?thesis by simp
  next
    case False
    with len show ?thesis by (cases v) auto
  qed
next
  fix vals :: "string list" and msk :: string and prevMatchEmpty :: bool and s :: string
    and c :: char and cs :: string
  assume "s = c # cs"
  then show "((vals, msk, False, cs), (vals, msk, prevMatchEmpty, s))
        \<in> measure (\<lambda>(vals, msk, p, s). 2 * length s + (if p then 0 else 1))"
    by simp
qed

declare Replace.simps [simp del]

text \<open>
  Modelled from the spec: \<open>stringsx.NewRedactor(mask, values...)\<close>, the redactor for a
  mask and the configured values: the scan above, started with no match behind it.
\<close>

definition NewRedactor :: "string \<Rightarrow> string list \<Rightarrow> (string \<Rightarrow> string)" where
  "NewRedactor msk vals = Replace vals msk False"

section \<open>HTTP traces and logs\<close>

text \<open>
  Modelled from the spec: \<open>httpx.Trace\<close>, \<open>httpx.Recorder\<close>, \<open>httpx.Log\<close> and
  \<open>httpx.NewLog\<close> (package gocommon, not part of the sources at hand). The spec describes
  an HTTP log as ``a bounded, redacted capture of one HTTP request/response exchange:
  request line+headers+body (truncated to a request-body cap) and response body
  (truncated to a larger cap), plus status code and timing'', produced through the
  redactor of the channel log. The status code of a trace without a response is 0.
  Times are clock readings in nanoseconds.
\<close>

record Trace =
  traceURL :: string
  RequestTrace :: string
  ResponseTrace :: string
  traceStatusCode :: int
  StartTime :: int
  EndTime :: int
  traceRetries :: int

record Recorder =
  recTrace :: Trace

record Log =
  URL :: string
  StatusCode :: int
  Request :: string
  Response :: string
  ElapsedMS :: int
  Retries :: int
  CreatedOn :: int

definition NewLog :: "Trace \<Rightarrow> nat \<Rightarrow> nat \<Rightarrow> (string \<Rightarrow> string) \<Rightarrow> Log" where
  "NewLog t trimRequestTo trimResponseTo redact =
     \<lparr>URL = redact (traceURL t),
      StatusCode = traceStatusCode t,
      Request = take trimRequestTo (redact (RequestTrace t)),
      Response = take trimResponseTo (redact (ResponseTrace t)),
      ElapsedMS = (EndTime t - StartTime t) div 1000000,
      Retries = traceRetries t,
      CreatedOn = StartTime t\<rparr>"

section \<open>Channel logs\<close>

text \<open>
  Modelled from the spec: the interface \<open>Channel\<close> is declared outside the sources at
  hand. The spec gives a channel an identity (UUID), a vendor type code, a country and a
  mapping of configuration keys to values; the mock channels of the tests also carry an
  address.
\<close>

record Channel =
  chUUID :: string
  chType :: string
  chAddress :: string
  chCountry :: string
  chConfig :: "(string \<times> string) list"

type_synonym ChannelLogType = string

definition ChannelLogTypeUnknown :: ChannelLogType where "ChannelLogTypeUnknown = ''unknown''"
definition ChannelLogTypeMsgSend :: ChannelLogType where "ChannelLogTypeMsgSend = ''msg_send''"
definition ChannelLogTypeMsgStatus :: ChannelLogType where "ChannelLogTypeMsgStatus = ''msg_status''"
definition ChannelLogTypeMsgReceive :: ChannelLogType where "ChannelLogTypeMsgReceive = ''msg_receive''"
definition ChannelLogTypeAttachmentFetch :: ChannelLogType where
  "ChannelLogTypeAttachmentFetch = ''attachment_fetch''"

text \<open>
  The struct \<open>ChannelLog\<close>. A method with a pointer receiver that assigns to a field is a
  function from the log to the updated log. \<open>uuids.New()\<close> and \<open>dates.Now()\<close> read the
  environment: the fresh UUID and the clock reading are arguments of the constructors.
  Fields that the struct literal of \<open>newChannelLog\<close> does not mention have Go's zero value.
  The field \<open>type_\<close> is written \<open>type'\<close>, since a name cannot end in an underscore here.
\<close>

record ChannelLog =
  uuid :: string
  type' :: ChannelLogType
  channel :: Channel
  httpLogs :: "Log list"
  errors :: "ChannelError list"
  createdOn :: int
  elapsed :: int
  attached :: bool
  recorder :: "Recorder option"
  redactor :: "string \<Rightarrow> string"

definition newChannelLog ::
  "string \<Rightarrow> int \<Rightarrow> ChannelLogType \<Rightarrow> Channel \<Rightarrow> Recorder option \<Rightarrow> bool \<Rightarrow> string list \<Rightarrow> ChannelLog" where
  "newChannelLog newUUID now t ch r attachedArg redactVals =
     \<lparr>uuid = newUUID,
      type' = t,
      channel = ch,
      httpLogs = [],
      errors = [],
      createdOn = now,
      elapsed = 0,
      attached = False,
      recorder = r,
      redactor = NewRedactor ''**********'' redactVals\<rparr>"

definition NewChannelLogForIncoming ::
  "string \<Rightarrow> int \<Rightarrow> ChannelLogType \<Rightarrow> Channel \<Rightarrow> Recorder option \<Rightarrow> string list \<Rightarrow> ChannelLog" where
  "NewChannelLogForIncoming newUUID now logType ch r redactVals =
     newChannelLog newUUID now logType ch r False redactVals"

text \<open>\<open>NewChannelLogForSend\<close> takes a \<open>Msg\<close> and uses only its channel, \<open>msg.Channel()\<close>.\<close>

definition NewChannelLogForSend :: "string \<Rightarrow> int \<Rightarrow> Channel \<Rightarrow> string list \<Rightarrow> ChannelLog" where
  "NewChannelLogForSend newUUID now msgChannel redactVals =
     newChannelLog newUUID now ChannelLogTypeMsgSend msgChannel None True redactVals"

definition NewChannelLogForAttachmentFetch :: "string \<Rightarrow> int \<Rightarrow> Channel \<Rightarrow> string list \<Rightarrow> ChannelLog" where
  "NewChannelLogForAttachmentFetch newUUID now ch redactVals =
     newChannelLog newUUID now ChannelLogTypeAttachmentFetch ch None True redactVals"

definition NewChannelLog :: "string \<Rightarrow> int \<Rightarrow> ChannelLogType \<Rightarrow> Channel \<Rightarrow> string list \<Rightarrow> ChannelLog" where
  "NewChannelLog newUUID now t ch redactVals = newChannelLog newUUID now t ch None False redactVals"

definition traceToLog :: "ChannelLog \<Rightarrow> Trace \<Rightarrow> Log" where
  "traceToLog l t = NewLog t 2048 50000 (redactor l)"

definition HTTP :: "ChannelLog \<Rightarrow> Trace \<Rightarrow> ChannelLog" where
  "HTTP l t = l\<lparr>httpLogs := httpLogs l @ [traceToLog l t]\<rparr>"

definition Error :: "ChannelLog \<Rightarrow> ChannelError \<Rightarrow> ChannelLog" where
  "Error l e = l\<lparr>errors := errors l @ [Redact e (redactor l)]\<rparr>"

definition RawError :: "(string \<Rightarrow> string list \<Rightarrow> string) \<Rightarrow> ChannelLog \<Rightarrow> string \<Rightarrow> ChannelLog" where
  "RawError directive l err = Error l (NewChannelError directive [] [] err [])"

text \<open>
  \<open>time.Since(t)\<close> is the current clock reading minus \<open>t\<close>, saturated to the range of
  \<open>time.Duration\<close> (a signed 64-bit count of nanoseconds). The current reading is the
  argument \<open>now\<close>.
\<close>

definition maxDuration :: int where "maxDuration = 2 ^ 63 - 1"
definition minDuration :: int where "minDuration = - (2 ^ 63)"

definition Since :: "int \<Rightarrow> int \<Rightarrow> int" where
  "Since now t = (if now - t > maxDuration then maxDuration
                  else if now - t < minDuration then minDuration else now - t)"

definition End :: "int \<Rightarrow> ChannelLog \<Rightarrow> ChannelLog" where
  "End now l =
     (let l1 = (case recorder l of
                  Some r \<Rightarrow> l\<lparr>httpLogs := [traceToLog l (recTrace r)] @ httpLogs l\<rparr>
                | None \<Rightarrow> l)
      in l1\<lparr>elapsed := Since now (createdOn l1)\<rparr>)"

definition SetType :: "ChannelLog \<Rightarrow> ChannelLogType \<Rightarrow> ChannelLog" where
  "SetType l t = l\<lparr>type' := t\<rparr>"

definition SetAttached :: "ChannelLog \<Rightarrow> bool \<Rightarrow> ChannelLog" where
  "SetAttached l a = l\<lparr>attached := a\<rparr>"

fun anyErrorStatus :: "Log list \<Rightarrow> bool" where
  "anyErrorStatus [] = False"
| "anyErrorStatus (h # hs) =
     (if StatusCode h < 200 \<or> StatusCode h \<ge> 400 then True else anyErrorStatus hs)"

definition IsError :: "ChannelLog \<Rightarrow> bool" where
  "IsError l = (if length (errors l) > 0 then True else anyErrorStatus (httpLogs l))"

subsection \<open>The lifetime of a log\<close>

text \<open>
  The methods that assign to a field of the log, as the calls a handler and the runtime
  can make on it, and a log's lifetime as the sequence of such calls after construction.
\<close>

datatype Call =
  CallHTTP Trace
  | CallError ChannelError
  | CallRawError string
  | CallEnd int
  | CallSetType ChannelLogType
  | CallSetAttached bool

fun call :: "(string \<Rightarrow> string list \<Rightarrow> string) \<Rightarrow> ChannelLog \<Rightarrow> Call \<Rightarrow> ChannelLog" where
  "call directive l (CallHTTP t) = HTTP l t"
| "call directive l (CallError e) = Error l e"
| "call directive l (CallRawError err) = RawError directive l err"
| "call directive l (CallEnd now) = End now l"
| "call directive l (CallSetType t) = SetType l t"
| "call directive l (CallSetAttached a) = SetAttached l a"

fun calls :: "(string \<Rightarrow> string list \<Rightarrow> string) \<Rightarrow> ChannelLog \<Rightarrow> Call list \<Rightarrow> ChannelLog" where
  "calls directive l [] = l"
| "calls directive l (c # cs) = calls directive (call directive l c) cs"

text \<open>
  What a sequence of calls adds to the two sequences of a log \<open>l\<close>: the HTTP logs that the
  \<open>HTTP\<close> calls append, the errors that \<open>Error\<close> and \<open>RawError\<close> append, and the copies of
  the recorder's trace that the \<open>End\<close> calls put in front.
\<close>

fun appendedLogs :: "ChannelLog \<Rightarrow> Call list \<Rightarrow> Log list" where
  "appendedLogs l [] = []"
| "appendedLogs l (CallHTTP t # cs) = traceToLog l t # appendedLogs l cs"
| "appendedLogs l (c # cs) = appendedLogs l cs"

fun appendedErrors :: "(string \<Rightarrow> string list \<Rightarrow> string) \<Rightarrow> ChannelLog \<Rightarrow> Call list \<Rightarrow> ChannelError list" where
  "appendedErrors directive l [] = []"
| "appendedErrors directive l (CallError e # cs) =
     Redact e (redactor l) # appendedErrors directive l cs"
| "appendedErrors directive l (CallRawError err # cs) =
     Redact (NewChannelError directive [] [] err []) (redactor l) # appendedErrors directive l cs"
| "appendedErrors directive l (c # cs) = appendedErrors directive l cs"

fun prependedLogs :: "ChannelLog \<Rightarrow> Call list \<Rightarrow> Log list" where
  "prependedLogs l [] = []"
| "prependedLogs l (CallEnd now # cs) =
     prependedLogs l cs @ (case recorder l of Some r \<Rightarrow> [traceToLog l (recTrace r)] | None \<Rightarrow> [])"
| "prependedLogs l (c # cs) = prependedLogs l cs"

fun setsAttachedFalse :: "Call \<Rightarrow> bool" where
  "setsAttachedFalse (CallSetAttached a) = (\<not> a)"
| "setsAttachedFalse c = False"

fun appends :: "Call \<Rightarrow> bool" where
  "appends (CallHTTP t) = True"
| "appends (CallError e) = True"
| "appends c = False"

text \<open>
  The mock channel of the tests:
  \<open>test.NewMockChannel("8eb23e93-5ecb-45ba-b726-3b064e0c56ab", "BL", "2020", "KE", ...)\<close>
  with the configuration of \<open>TestOutgoing\<close>. The configuration keys \<open>courier.ConfigUsername\<close>
  and \<open>courier.ConfigPassword\<close> are declared outside the sources at hand.
\<close>

definition ConfigUsername :: string where "ConfigUsername = ''username''"
definition ConfigPassword :: string where "ConfigPassword = ''password''"

definition mockChannel :: Channel where
  "mockChannel =
     \<lparr>chUUID = ''8eb23e93-5ecb-45ba-b726-3b064e0c56ab'',
      chType = ''BL'',
      chAddress = ''2020'',
      chCountry = ''KE'',
      chConfig = [(ConfigUsername, ''user1''), (ConfigPassword, ''pass1'')]\<rparr>"

section \<open>The handler contract on the adapter under test\<close>

text \<open>
  The first source file holds the tests of the Bongo Live adapter (\<open>incomingCases\<close>,
  \<open>outgoingCases\<close>); the adapter itself (\<open>newHandler()\<close>, its receive and send
  functions), the test harness and the canonical entities are outside the sources at
  hand. The definitions of this section follow the spec's channel handler contract
  (sections 4.4 and 6) and take the field names from the test tables. What the spec
  leaves open (the vendor's table of status codes, the normalisation of telephone
  numbers) is a parameter.
\<close>

subsection \<open>Canonical entities\<close>

text \<open>
  Modelled from the spec: the status values of \<open>MsgStatus\<close> (``a fixed enumeration
  {wired, sent, delivered, failed, errored, ...}''), declared outside the sources at hand.
\<close>

datatype MsgStatusValue =
  MsgStatusWired | MsgStatusSent | MsgStatusDelivered | MsgStatusFailed | MsgStatusErrored




text \<open>
  Modelled from the spec: an outgoing \<open>Msg\<close> handed to the send function (text, URN,
  ordered attachments, each written \<open>content-type:URL\<close> as in the tests, owning channel),
  declared outside the sources at hand.
\<close>

record MsgOut =
  outText :: string
  outURN :: string
  outAttachments :: "string list"
  outChannel :: Channel

subsection \<open>Receive\<close>


definition cutAt :: "char \<Rightarrow> string \<Rightarrow> string \<times> string" where
  "cutAt sep s = (takeWhile (\<lambda>c. c \<noteq> sep) s, drop (Suc (length (takeWhile (\<lambda>c. c \<noteq> sep) s))) s)"


definition formValue :: "(string \<times> string) list \<Rightarrow> string \<Rightarrow> string" where
  "formValue form k = (case map_of form k of Some v \<Rightarrow> v | None \<Rightarrow> [])"


subsection \<open>Send\<close>

text \<open>
  Modelled from the spec: the send errors \<open>courier.ErrConnectionFailed\<close>,
  \<open>courier.ErrResponseStatus\<close>, \<open>courier.ErrResponseUnparseable\<close> and
  \<open>courier.ErrResponseUnexpected\<close>, which the tests name and which are declared outside
  the sources at hand.
\<close>

datatype SendError =
  ErrConnectionFailed | ErrResponseStatus | ErrResponseUnparseable | ErrResponseUnexpected

text \<open>
  Modelled from the spec: a parsed JSON document. The vendor's response is ``parsed as
  JSON containing a results array with per-item status and optional message id''; the
  JSON parser is outside the sources at hand, so a response body is given as the
  document it parses to, or \<open>None\<close> when it is not JSON.
\<close>

datatype json =
  JNull | JBool bool | JNumber int | JString string | JArray "json list"
  | JObject "(string \<times> json) list"

fun jsonField :: "string \<Rightarrow> json \<Rightarrow> json option" where
  "jsonField k (JObject kvs) = map_of kvs k"
| "jsonField k j = None"

fun jsonFirst :: "json \<Rightarrow> json option" where
  "jsonFirst (JArray (x # xs)) = Some x"
| "jsonFirst j = None"

fun jsonString :: "json \<Rightarrow> string option" where
  "jsonString (JString s) = Some s"
| "jsonString j = None"

definition firstResultField :: "string \<Rightarrow> json \<Rightarrow> string option" where
  "firstResultField k doc =
     (case jsonField ''results'' doc of
        None \<Rightarrow> None
      | Some rs \<Rightarrow> (case jsonFirst rs of
                     None \<Rightarrow> None
                   | Some item \<Rightarrow> (case jsonField k item of
                                     None \<Rightarrow> None
                                   | Some v \<Rightarrow> jsonString v)))"

text \<open>
  Modelled from the spec: the message text of the outbound request, ``body text with
  attachment URLs appended'', ``newline-joined'' (built by the handlers' helper outside
  the sources at hand). The URL of an attachment is what follows its content type and
  the first colon.
\<close>

definition attachmentURL :: "string \<Rightarrow> string" where
  "attachmentURL a = snd (cutAt (CHR '':'') a)"

definition textAndAttachments :: "MsgOut \<Rightarrow> string" where
  "textAndAttachments m =
     joinWith [CHR 0x0A] (outText m # map attachmentURL (outAttachments m))"

text \<open>
  Modelled from the spec: the outbound request of the adapter's send function (outside
  the sources at hand), ``URL-encoded parameters: credentials, source/destination
  address, body text with attachment URLs appended, delivery-receipt flag'', under the
  parameter names of the tests. The destination address is the path of the URN without
  its scheme and its plus sign. The character-encoding hint, whose rule the spec does not
  give, is left out.
\<close>

definition destAddr :: "string \<Rightarrow> string" where
  "destAddr urn = dropWhile (\<lambda>c. c = CHR ''+'') (snd (cutAt (CHR '':'') urn))"

definition buildRequest :: "MsgOut \<Rightarrow> (string \<times> string) list" where
  "buildRequest m =
     [(''USERNAME'', formValue (chConfig (outChannel m)) ConfigUsername),
      (''PASSWORD'', formValue (chConfig (outChannel m)) ConfigPassword),
      (''SOURCEADDR'', chAddress (outChannel m)),
      (''DESTADDR'', destAddr (outURN m)),
      (''DLR'', ''1''),
      (''MESSAGE'', textAndAttachments m)]"

text \<open>
  Modelled from the spec: the interpretation of the vendor's answer by the adapter's send
  function (outside the sources at hand). A status outside 200..399 is a failure: of
  the connection for a server-side status (500 and above, as the tests expect for 501),
  else of the response status. A body that is not JSON or has no status in its first
  result is unparseable; a status other than \<open>0\<close> is an unexpected response; with the
  status \<open>0\<close> the send succeeds and returns the message id of the first result, when there
  is one, as the external identifier.
\<close>

definition interpretResponse :: "int \<Rightarrow> json option \<Rightarrow> SendError + string list" where
  "interpretResponse status body =
     (if status < 200 \<or> status \<ge> 400 then
        (if status \<ge> 500 then Inl ErrConnectionFailed else Inl ErrResponseStatus)
      else (case body of
              None \<Rightarrow> Inl ErrResponseUnparseable
            | Some doc \<Rightarrow>
                (case firstResultField ''status'' doc of
                   None \<Rightarrow> Inl ErrResponseUnparseable
                 | Some st \<Rightarrow>
                     if st \<noteq> ''0'' then Inl ErrResponseUnexpected
                     else (case firstResultField ''msgid'' doc of
                             None \<Rightarrow> Inr []
                           | Some i \<Rightarrow> Inr [i]))))"

text \<open>
  Modelled from the spec: the send function of the adapter (outside the sources at
  hand): it builds the request, executes it and interprets the answer. The vendor is a
  parameter, a function from the request to no answer at all (\<open>None\<close>, the connection
  failed) or to a status and a body. The result is the request that went out and the
  error or the external identifiers.
\<close>

definition send ::
  "((string \<times> string) list \<Rightarrow> (int \<times> json option) option) \<Rightarrow> MsgOut
   \<Rightarrow> (string \<times> string) list \<times> (SendError + string list)" where
  "send vendor m =
     (let req = buildRequest m in
      (req, case vendor req of
              None \<Rightarrow> Inl ErrConnectionFailed
            | Some (status, body) \<Rightarrow> interpretResponse status body))"

section \<open>Example values\<close>

text \<open>
  Concrete values on which the theorems below are instantiated: a formatting parameter,
  a trace with a password in its URL and a response status 404, and an error whose
  message holds the password of the mock channel.
\<close>

definition noDirective :: "string \<Rightarrow> string list \<Rightarrow> string" where
  "noDirective f args = []"

definition exampleTrace :: Trace where
  "exampleTrace =
     \<lparr>traceURL = ''https://api.example.com/send?PASSWORD=pass1'',
      RequestTrace = ''POST /send HTTP/1.1'',
      ResponseTrace = ''HTTP/1.1 404 Not Found'',
      traceStatusCode = 404,
      StartTime = 1000000,
      EndTime = 3000000,
      traceRetries = 0\<rparr>"

definition exampleError :: ChannelError where
  "exampleError =
     \<lparr>code = ''response_unexpected'', extCode = [], message = ''login with pass1 failed''\<rparr>"






section \<open>Properties of the redactor and of the log's lifetime\<close>

lemma lookup_None:
  "lookup vals s p = None \<Longrightarrow> v \<in> set vals \<Longrightarrow> v \<noteq> [] \<Longrightarrow> \<not> prefix v s"
  by (induction vals) (auto split: if_splits)

text \<open>
  A string without a byte of the mask that starts the output of the replacement starts
  the input too: the output begins with the mask or with the first byte of the input.
\<close>

lemma Replace_Some:
  "lookup vals s p = Some k
   \<Longrightarrow> Replace vals msk p s = msk @ Replace vals msk (k = []) (drop (length k) s)"
  by (subst Replace.simps) simp

lemma Replace_None_Nil: "lookup vals [] p = None \<Longrightarrow> Replace vals msk p [] = []"
  by (subst Replace.simps) simp

lemma Replace_None_Cons:
  "lookup vals (c # cs) p = None
   \<Longrightarrow> Replace vals msk p (c # cs) = c # Replace vals msk False cs"
  by (subst Replace.simps) simp

lemma prefix_mask_append:
  "msk \<noteq> [] \<Longrightarrow> set v \<inter> set msk = {} \<Longrightarrow> prefix v (msk @ ys) \<Longrightarrow> v = []"
  by (cases v; cases msk) auto

lemma Replace_prefix:
  "msk \<noteq> [] \<Longrightarrow> set v \<inter> set msk = {} \<Longrightarrow> prefix v (Replace vals msk p s) \<Longrightarrow> prefix v s"
proof (induction vals msk p s arbitrary: v rule: Replace.induct)
  case (1 vals msk p s)
  show ?case
  proof (cases "lookup vals s p")
    case (Some k)
    have "prefix v (msk @ Replace vals msk (k = []) (drop (length k) s))"
      using "1.prems"(3) by (simp only: Replace_Some[OF Some])
    with "1.prems"(1,2) have "v = []"
      by (rule prefix_mask_append)
    then show ?thesis by simp
  next
    case None
    show ?thesis
    proof (cases s)
      case Nil
      with None "1.prems"(3) show ?thesis
        by (simp add: Replace_None_Nil)
    next
      case (Cons c cs)
      have out: "prefix v (c # Replace vals msk False cs)"
        using "1.prems"(3) None Cons by (simp add: Replace_None_Cons)
      show ?thesis
      proof (cases v)
        case Nil
        then show ?thesis by simp
      next
        case (Cons a v')
        with out have a: "a = c" and v': "prefix v' (Replace vals msk False cs)"
          by simp_all
        from "1.prems"(2) Cons have "set v' \<inter> set msk = {}"
          by auto
        with "1.IH"(1)[OF None \<open>s = c # cs\<close> "1.prems"(1) _ v'] have "prefix v' cs"
          by simp
        with a Cons \<open>s = c # cs\<close> show ?thesis by simp
      qed
    qed
  qed
qed

lemma sublist_mask_append:
  "v \<noteq> [] \<Longrightarrow> set v \<inter> set msk = {} \<Longrightarrow> sublist v (msk @ ys) \<Longrightarrow> sublist v ys"
  by (induction msk) (auto simp: sublist_Cons_right, cases v, auto)

lemma Replace_no_sublist:
  "msk \<noteq> [] \<Longrightarrow> v \<in> set vals \<Longrightarrow> v \<noteq> [] \<Longrightarrow> set v \<inter> set msk = {}
   \<Longrightarrow> \<not> sublist v (Replace vals msk p s)"
proof (induction vals msk p s rule: Replace.induct)
  case (1 vals msk p s)
  show ?case
  proof (cases "lookup vals s p")
    case (Some k)
    have rest: "\<not> sublist v (Replace vals msk (k = []) (drop (length k) s))"
      using "1.IH"(2)[OF Some] "1.prems" by simp
    show ?thesis
    proof
      assume "sublist v (Replace vals msk p s)"
      then have "sublist v (msk @ Replace vals msk (k = []) (drop (length k) s))"
        by (simp only: Replace_Some[OF Some])
      with "1.prems"(3,4) have "sublist v (Replace vals msk (k = []) (drop (length k) s))"
        by (rule sublist_mask_append)
      with rest show False by simp
    qed
  next
    case None
    show ?thesis
    proof (cases s)
      case Nil
      with None "1.prems" show ?thesis
        by (simp add: Replace_None_Nil)
    next
      case (Cons c cs)
      have rest: "\<not> sublist v (Replace vals msk False cs)"
        using "1.IH"(1)[OF None Cons] "1.prems" by simp
      have eq: "Replace vals msk p s = c # Replace vals msk False cs"
        using None Cons by (simp add: Replace_None_Cons)
      have here: "\<not> prefix v (c # Replace vals msk False cs)"
      proof
        assume "prefix v (c # Replace vals msk False cs)"
        then have "prefix v (Replace vals msk p s)"
          by (simp only: eq)
        with "1.prems"(1,4) have "prefix v s"
          by (rule Replace_prefix)
        with lookup_None[OF None] "1.prems" show False by blast
      qed
      from rest here show ?thesis
        by (simp add: eq sublist_Cons_right)
    qed
  qed
qed

lemma NewRedactor_no_secret:
  assumes "v \<in> set vals" and "v \<noteq> []" and "CHR ''*'' \<notin> set v"
  shows "\<not> sublist v (NewRedactor ''**********'' vals s)"
proof -
  have "set v \<inter> set ''**********'' = {}"
    using assms(3) by auto
  then show ?thesis
    unfolding NewRedactor_def using assms(1,2) by (intro Replace_no_sublist) auto
qed

lemma newChannelLog_fields [simp]:
  "errors (newChannelLog uid now t ch r a vals) = []"
  "httpLogs (newChannelLog uid now t ch r a vals) = []"
  "attached (newChannelLog uid now t ch r a vals) = False"
  "recorder (newChannelLog uid now t ch r a vals) = r"
  "createdOn (newChannelLog uid now t ch r a vals) = now"
  "redactor (newChannelLog uid now t ch r a vals) = NewRedactor ''**********'' vals"
  by (simp_all add: newChannelLog_def)

lemmas method_defs =
  HTTP_def Error_def RawError_def End_def SetType_def SetAttached_def Let_def

lemma call_redactor [simp]: "redactor (call d l c) = redactor l"
  by (cases c) (auto simp: method_defs split: option.splits)

lemma call_recorder [simp]: "recorder (call d l c) = recorder l"
  by (cases c) (auto simp: method_defs split: option.splits)

lemma call_createdOn [simp]: "createdOn (call d l c) = createdOn l"
  by (cases c) (auto simp: method_defs split: option.splits)

lemma calls_redactor [simp]: "redactor (calls d l cs) = redactor l"
  by (induction cs arbitrary: l) auto

lemma calls_recorder [simp]: "recorder (calls d l cs) = recorder l"
  by (induction cs arbitrary: l) auto

lemma calls_createdOn [simp]: "createdOn (calls d l cs) = createdOn l"
  by (induction cs arbitrary: l) auto

lemma call_errors: "errors (call d l c) = errors l @ appendedErrors d l [c]"
  by (cases c) (auto simp: method_defs split: option.splits)

lemma call_httpLogs:
  "httpLogs (call d l c) = prependedLogs l [c] @ httpLogs l @ appendedLogs l [c]"
  by (cases c) (auto simp: method_defs split: option.splits)

lemma appendedErrors_cong:
  "redactor l' = redactor l \<Longrightarrow> appendedErrors d l' cs = appendedErrors d l cs"
  by (induction d l cs rule: appendedErrors.induct) auto

lemma appendedLogs_cong:
  "redactor l' = redactor l \<Longrightarrow> appendedLogs l' cs = appendedLogs l cs"
  by (induction l cs rule: appendedLogs.induct) (auto simp: traceToLog_def)

lemma prependedLogs_cong:
  "redactor l' = redactor l \<Longrightarrow> recorder l' = recorder l
   \<Longrightarrow> prependedLogs l' cs = prependedLogs l cs"
  by (induction l cs rule: prependedLogs.induct)
     (auto simp: traceToLog_def split: option.splits)

lemma appendedErrors_Cons:
  "appendedErrors d l (c # cs) = appendedErrors d l [c] @ appendedErrors d l cs"
  by (cases c) auto

lemma appendedLogs_Cons: "appendedLogs l (c # cs) = appendedLogs l [c] @ appendedLogs l cs"
  by (cases c) auto

lemma prependedLogs_Cons: "prependedLogs l (c # cs) = prependedLogs l cs @ prependedLogs l [c]"
  by (cases c) auto

lemma calls_errors: "errors (calls d l cs) = errors l @ appendedErrors d l cs"
proof (induction cs arbitrary: l)
  case Nil
  show ?case by simp
next
  case (Cons c cs)
  have "errors (calls d l (c # cs)) = errors (call d l c) @ appendedErrors d (call d l c) cs"
    using Cons.IH by simp
  also have "\<dots> = (errors l @ appendedErrors d l [c]) @ appendedErrors d l cs"
    by (simp only: call_errors appendedErrors_cong[OF call_redactor])
  finally show ?case
    by (simp add: appendedErrors_Cons[of d l c cs])
qed

lemma calls_httpLogs:
  "httpLogs (calls d l cs) = prependedLogs l cs @ httpLogs l @ appendedLogs l cs"
proof (induction cs arbitrary: l)
  case Nil
  show ?case by simp
next
  case (Cons c cs)
  have "httpLogs (calls d l (c # cs)) =
          prependedLogs (call d l c) cs @ httpLogs (call d l c) @ appendedLogs (call d l c) cs"
    using Cons.IH by simp
  also have "\<dots> = prependedLogs l cs @ (prependedLogs l [c] @ httpLogs l @ appendedLogs l [c])
                    @ appendedLogs l cs"
    by (simp only: call_httpLogs appendedLogs_cong[OF call_redactor]
          prependedLogs_cong[OF call_redactor call_recorder])
  finally show ?case
    by (simp add: appendedLogs_Cons[of l c cs] prependedLogs_Cons[of l c cs])
qed

lemma appendedErrors_redacted:
  "x \<in> set (appendedErrors d l cs) \<Longrightarrow> \<exists>m. message x = redactor l m"
  by (induction d l cs rule: appendedErrors.induct) (auto simp: Redact_def)

lemma prependedLogs_appends:
  "\<forall>c \<in> set cs. appends c \<Longrightarrow> prependedLogs l cs = []"
  by (induction l cs rule: prependedLogs.induct) auto

lemma call_attached:
  "attached (call d l c) = (case c of CallSetAttached a \<Rightarrow> a | _ \<Rightarrow> attached l)"
  by (cases c) (auto simp: method_defs split: option.splits)

lemma calls_attached:
  "\<forall>c \<in> set cs. \<not> setsAttachedFalse c \<Longrightarrow> attached l \<Longrightarrow> attached (calls d l cs)"
proof (induction cs arbitrary: l)
  case Nil
  then show ?case by simp
next
  case (Cons c cs)
  from Cons.prems have "attached (call d l c)"
    by (auto simp: call_attached split: Call.splits)
  with Cons show ?case by simp
qed

lemma Sprintf_verbatim: "CHR ''%'' \<notin> set f \<Longrightarrow> Sprintf d f [] = f"
proof (induction f)
  case Nil
  show ?case by simp
next
  case (Cons c f)
  then show ?case by (cases f) auto
qed

lemma Sprintf_service:
  "Sprintf d ''Service specific error: %s.'' [c] = ''Service specific error: '' @ c @ ''.''"
  by simp

lemma anyErrorStatus_iff:
  "anyErrorStatus hs = (\<exists>h \<in> set hs. StatusCode h < 200 \<or> StatusCode h \<ge> 400)"
  by (induction hs) auto

section \<open>The claims\<close>

text \<open>
  C1 (as amended). A log is constructed with the redaction values \<open>redactVals\<close> and then
  used by any sequence of calls. For every configured value \<open>v\<close> that is not empty and
  holds no \<open>*\<close>, the byte of the mask: \<open>Error(e)\<close> stores at the end of \<open>errors\<close> a new error
  with the code and external code of \<open>e\<close> and the redacted message, and \<open>v\<close> occurs neither
  in that message nor in the message of any error stored in the log.
\<close>

theorem Error_stores_redacted:
  assumes "v \<in> set redactVals" and "v \<noteq> []" and "CHR ''*'' \<notin> set v"
    and "l = calls d (newChannelLog uid now t ch r a redactVals) cs"
  shows "errors (Error l e) = errors l @
           [\<lparr>code = code e, extCode = extCode e,
             message = NewRedactor ''**********'' redactVals (message e)\<rparr>]
       \<and> \<not> sublist v (NewRedactor ''**********'' redactVals (message e))
       \<and> (\<forall>x \<in> set (errors (Error l e)). \<not> sublist v (message x))"
proof -
  let ?l0 = "newChannelLog uid now t ch r a redactVals"
  have red: "redactor l = NewRedactor ''**********'' redactVals"
    using assms(4) by simp
  have step: "errors (Error l e) = errors l @
           [\<lparr>code = code e, extCode = extCode e,
             message = NewRedactor ''**********'' redactVals (message e)\<rparr>]"
    by (simp add: Error_def Redact_def red)
  have clean: "\<not> sublist v (NewRedactor ''**********'' redactVals m)" for m
    using assms(1-3) by (rule NewRedactor_no_secret)
  have old: "\<not> sublist v (message x)" if "x \<in> set (errors l)" for x
  proof -
    from that have "x \<in> set (appendedErrors d ?l0 cs)"
      using assms(4) by (simp add: calls_errors)
    then obtain m where "message x = redactor ?l0 m"
      using appendedErrors_redacted by blast
    then show ?thesis using clean by simp
  qed
  from step clean old show ?thesis by auto
qed

theorem Error_stores_redacted_witness:
  "''pass1'' \<in> set [''pass1''] \<and> ''pass1'' \<noteq> [] \<and> CHR ''*'' \<notin> set ''pass1''
   \<and> errors (Error (calls noDirective
                      (newChannelLog [] 0 ChannelLogTypeMsgSend mockChannel None True [''pass1''])
                      [])
               exampleError)
      = [\<lparr>code = ''response_unexpected'', extCode = [],
          message = ''login with ********** failed''\<rparr>]
   \<and> \<not> sublist ''pass1'' ''login with ********** failed''"
  using Error_stores_redacted [of "''pass1''" "[''pass1'']"
      "calls noDirective (newChannelLog [] 0 ChannelLogTypeMsgSend mockChannel None True [''pass1'']) []"
      noDirective "[]" 0 ChannelLogTypeMsgSend mockChannel None True "[]" exampleError]
  by (simp add: exampleError_def NewRedactor_def Replace.simps)

text \<open>
  C1 as stated fails for a configured value that occurs in the mask: with the redaction
  value \<open>*\<close>, the message \<open>key=*\<close> is stored as \<open>key=**********\<close>, in which the
  configured value remains.
\<close>

theorem Error_secret_remains_counterexample:
  "''*'' \<in> set [''*'']
   \<and> errors (Error (NewChannelLog [] 0 ChannelLogTypeUnknown mockChannel [''*''])
               \<lparr>code = ''external'', extCode = [], message = ''key=*''\<rparr>)
      = [\<lparr>code = ''external'', extCode = [], message = ''key=**********''\<rparr>]
   \<and> sublist ''*'' ''key=**********''"
  by (simp add: NewChannelLog_def newChannelLog_def Error_def Redact_def NewRedactor_def
        Replace.simps sublist_Cons_right)

text \<open>
  C2. \<open>IsError()\<close> is true exactly when \<open>errors\<close> is not empty or some HTTP log has a
  status code below 200 or at least 400.
\<close>

theorem IsError_iff:
  "IsError l = (errors l \<noteq> [] \<or> (\<exists>h \<in> set (httpLogs l). StatusCode h < 200 \<or> StatusCode h \<ge> 400))"
  by (simp add: IsError_def anyErrorStatus_iff)

theorem IsError_iff_witness:
  "IsError (HTTP (NewChannelLog [] 0 ChannelLogTypeMsgSend mockChannel []) exampleTrace)
   \<and> errors (HTTP (NewChannelLog [] 0 ChannelLogTypeMsgSend mockChannel []) exampleTrace) = []
   \<and> map StatusCode (httpLogs (HTTP (NewChannelLog [] 0 ChannelLogTypeMsgSend mockChannel []) exampleTrace)) = [404]
   \<and> \<not> IsError (NewChannelLog [] 0 ChannelLogTypeMsgSend mockChannel [])"
  using IsError_iff [of "HTTP (NewChannelLog [] 0 ChannelLogTypeMsgSend mockChannel []) exampleTrace"]
    IsError_iff [of "NewChannelLog [] 0 ChannelLogTypeMsgSend mockChannel []"]
  by (simp add: NewChannelLog_def HTTP_def traceToLog_def NewLog_def exampleTrace_def)



text \<open>
  C4. \<open>HTTP(t)\<close> appends exactly one entry to the end of \<open>httpLogs\<close> and leaves \<open>errors\<close>
  as it is; \<open>Error(e)\<close> appends exactly one entry, the redacted error, to the end of
  \<open>errors\<close> and leaves \<open>httpLogs\<close> as it is. After any sequence of \<open>HTTP\<close> and \<open>Error\<close> calls
  the two sequences are the old ones followed by the appended entries in call order.
  After any sequence of calls of any method, the old HTTP logs are still there, together
  and in their order (\<open>End\<close> only puts the recorder's trace in front of them), and the old
  errors are a prefix of the new ones: no call removes or reorders an entry.
\<close>

theorem httpLogs_errors_append_only:
  "httpLogs (HTTP l t) = httpLogs l @ [traceToLog l t] \<and> errors (HTTP l t) = errors l
   \<and> errors (Error l e) = errors l @ [Redact e (redactor l)] \<and> httpLogs (Error l e) = httpLogs l
   \<and> ((\<forall>c \<in> set cs. appends c) \<longrightarrow>
         httpLogs (calls d l cs) = httpLogs l @ appendedLogs l cs
       \<and> errors (calls d l cs) = errors l @ appendedErrors d l cs)
   \<and> httpLogs (calls d l ds) = prependedLogs l ds @ httpLogs l @ appendedLogs l ds
   \<and> errors (calls d l ds) = errors l @ appendedErrors d l ds"
proof -
  have one: "httpLogs (HTTP l t) = httpLogs l @ [traceToLog l t] \<and> errors (HTTP l t) = errors l
      \<and> errors (Error l e) = errors l @ [Redact e (redactor l)]
      \<and> httpLogs (Error l e) = httpLogs l"
    by (simp add: HTTP_def Error_def)
  have many: "httpLogs (calls d l cs) = httpLogs l @ appendedLogs l cs
      \<and> errors (calls d l cs) = errors l @ appendedErrors d l cs"
    if "\<forall>c \<in> set cs. appends c"
    using that by (simp add: calls_httpLogs calls_errors prependedLogs_appends)
  from one many show ?thesis
    using calls_httpLogs [of d l ds] calls_errors [of d l ds] by blast
qed

theorem httpLogs_errors_append_only_witness:
  "appends (CallHTTP exampleTrace) \<and> appends (CallError exampleError)
   \<and> map StatusCode (httpLogs (calls noDirective
        (HTTP (NewChannelLog [] 0 ChannelLogTypeMsgSend mockChannel [''pass1''])
              (exampleTrace\<lparr>traceStatusCode := 200\<rparr>))
        [CallHTTP exampleTrace, CallError exampleError, CallHTTP exampleTrace]))
     = [200, 404, 404]
   \<and> map message (errors (calls noDirective
        (HTTP (NewChannelLog [] 0 ChannelLogTypeMsgSend mockChannel [''pass1''])
              (exampleTrace\<lparr>traceStatusCode := 200\<rparr>))
        [CallHTTP exampleTrace, CallError exampleError, CallHTTP exampleTrace]))
     = [''login with ********** failed'']"
  using httpLogs_errors_append_only [of
      "HTTP (NewChannelLog [] 0 ChannelLogTypeMsgSend mockChannel [''pass1''])
              (exampleTrace\<lparr>traceStatusCode := 200\<rparr>)"
      exampleTrace exampleError
      "[CallHTTP exampleTrace, CallError exampleError, CallHTTP exampleTrace]" noDirective "[]"]
  by (simp add: NewChannelLog_def newChannelLog_def HTTP_def traceToLog_def NewLog_def
        Redact_def exampleTrace_def exampleError_def NewRedactor_def Replace.simps)

text \<open>
  C5. \<open>e.Redact(r)\<close> is an error with the code and external code of \<open>e\<close> and with the
  message \<open>r\<close> applied to the message of \<open>e\<close>. On pointers: for an allocated receiver the
  call returns a new address, different from the receiver's, that holds this error, and
  every error allocated before, the receiver among them, is what it was.
\<close>

theorem Redact_new_value:
  "code (Redact e r) = code e \<and> extCode (Redact e r) = extCode e
   \<and> message (Redact e r) = r (message e)
   \<and> (p < length h \<longrightarrow>
        (\<exists>h' q. Redact_ptr h (Some p) r = Some (h', q) \<and> q \<noteq> p \<and> q < length h'
           \<and> h' ! q = \<lparr>code = code (h ! p), extCode = extCode (h ! p),
                        message = r (message (h ! p))\<rparr>
           \<and> take (length h) h' = h \<and> h' ! p = h ! p))"
  by (auto simp: Redact_def Redact_ptr_def nth_append)

theorem Redact_new_value_witness:
  "(0::nat) < length [exampleError]
   \<and> Redact_ptr [exampleError] (Some 0) (NewRedactor ''**********'' [''pass1''])
      = Some ([exampleError,
               \<lparr>code = ''response_unexpected'', extCode = [],
                message = ''login with ********** failed''\<rparr>], 1)
   \<and> message exampleError = ''login with pass1 failed''"
  using Redact_new_value [of exampleError "NewRedactor ''**********'' [''pass1'']" 0 "[exampleError]"]
  by (simp add: Redact_ptr_def Redact_def exampleError_def NewRedactor_def Replace.simps)

text \<open>
  C6 (as amended). The external error constructor returns an error with code
  \<open>external\<close> and external code \<open>c\<close>. Its message is \<open>m\<close> itself when \<open>m\<close> is not empty and
  holds no \<open>%\<close>; for the empty message it is \<open>Service specific error: c.\<close> (when \<open>c\<close>
  holds no \<open>%\<close>).
\<close>

theorem ErrorExternal_message:
  "code (ErrorExternal d c msg) = ''external'' \<and> extCode (ErrorExternal d c msg) = c
   \<and> (msg \<noteq> [] \<and> CHR ''%'' \<notin> set msg \<longrightarrow> message (ErrorExternal d c msg) = msg)
   \<and> (msg = [] \<and> CHR ''%'' \<notin> set c \<longrightarrow>
         message (ErrorExternal d c msg) = ''Service specific error: '' @ c @ ''.'')"
proof -
  have a: "code (ErrorExternal d c msg) = ''external'' \<and> extCode (ErrorExternal d c msg) = c"
    by (simp add: ErrorExternal_def NewChannelError_def Let_def)
  have b: "message (ErrorExternal d c msg) = msg" if "msg \<noteq> []" "CHR ''%'' \<notin> set msg"
    using that by (simp add: ErrorExternal_def NewChannelError_def Let_def Sprintf_verbatim)
  have c: "message (ErrorExternal d c msg) = ''Service specific error: '' @ c @ ''.''"
    if "msg = []" "CHR ''%'' \<notin> set c"
  proof -
    have "CHR ''%'' \<notin> set (''Service specific error: '' @ c @ ''.'')"
      using that by simp
    then have "Sprintf d (''Service specific error: '' @ c @ ''.'') []
               = ''Service specific error: '' @ c @ ''.''"
      by (rule Sprintf_verbatim)
    with that show ?thesis
      by (simp add: ErrorExternal_def NewChannelError_def Let_def Sprintf_service
            del: Sprintf.simps)
  qed
  from a b c show ?thesis by blast
qed

theorem ErrorExternal_message_witness:
  "''Invalid credentials'' \<noteq> [] \<and> CHR ''%'' \<notin> set ''Invalid credentials''
   \<and> ErrorExternal noDirective ''1002'' ''Invalid credentials''
      = \<lparr>code = ''external'', extCode = ''1002'', message = ''Invalid credentials''\<rparr>
   \<and> CHR ''%'' \<notin> set ''1002''
   \<and> ErrorExternal noDirective ''1002'' []
      = \<lparr>code = ''external'', extCode = ''1002'', message = ''Service specific error: 1002.''\<rparr>"
  using ErrorExternal_message [of noDirective "''1002''" "''Invalid credentials''"]
    ErrorExternal_message [of noDirective "''1002''" "[]"]
  by (simp add: ErrorExternal_def NewChannelError_def)

text \<open>
  C6 as stated fails for the empty message: it is not passed through, the constructor
  replaces it by a default text built from the vendor code.
\<close>

theorem ErrorExternal_empty_message_counterexample:
  "message (ErrorExternal noDirective ''1002'' []) = ''Service specific error: 1002.''
   \<and> message (ErrorExternal noDirective ''1002'' []) \<noteq> []"
  by (simp add: ErrorExternal_def NewChannelError_def)

text \<open>
  A message with a \<open>%\<close> is not passed through either: \<open>NewChannelError\<close> uses it as
  the format of \<open>fmt.Sprintf\<close> without operands, which reads a trailing \<open>%\<close> as a directive
  without a verb.
\<close>

lemma ErrorExternal_percent_message:
  "message (ErrorExternal d ''1002'' ''Quota at 100%'') = ''Quota at 100%!(NOVERB)''"
  by (simp add: ErrorExternal_def NewChannelError_def)

text \<open>
  C7 (as amended). Every constructor returns a log with \<open>attached\<close> false, also
  \<open>NewChannelLogForSend\<close> and \<open>NewChannelLogForAttachmentFetch\<close>, which pass \<open>true\<close> to
  \<open>newChannelLog\<close>. \<open>SetAttached(a)\<close> sets the flag to \<open>a\<close>, and no other method changes
  it: a flag that is true stays true through every sequence of calls without a
  \<open>SetAttached(false)\<close>.
\<close>

theorem attached_starts_false_and_stays:
  "\<not> attached (NewChannelLogForIncoming uid now t ch r vals)
   \<and> \<not> attached (NewChannelLogForSend uid now ch vals)
   \<and> \<not> attached (NewChannelLogForAttachmentFetch uid now ch vals)
   \<and> \<not> attached (NewChannelLog uid now t ch vals)
   \<and> attached (SetAttached l a) = a
   \<and> attached (call d l c) = (case c of CallSetAttached a \<Rightarrow> a | _ \<Rightarrow> attached l)
   \<and> ((\<forall>c \<in> set cs. \<not> setsAttachedFalse c) \<and> attached l \<longrightarrow> attached (calls d l cs))"
proof -
  have ctor: "\<not> attached (NewChannelLogForIncoming uid now t ch r vals)
      \<and> \<not> attached (NewChannelLogForSend uid now ch vals)
      \<and> \<not> attached (NewChannelLogForAttachmentFetch uid now ch vals)
      \<and> \<not> attached (NewChannelLog uid now t ch vals)"
    by (simp add: NewChannelLogForIncoming_def NewChannelLogForSend_def
          NewChannelLogForAttachmentFetch_def NewChannelLog_def)
  have setter: "attached (SetAttached l a) = a"
    by (simp add: SetAttached_def)
  from ctor setter show ?thesis
    using call_attached [of d l c] calls_attached [of cs l d] by blast
qed

theorem attached_starts_false_and_stays_witness:
  "\<not> setsAttachedFalse (CallHTTP exampleTrace) \<and> \<not> setsAttachedFalse (CallEnd 7)
   \<and> \<not> setsAttachedFalse (CallSetAttached True) \<and> \<not> setsAttachedFalse (CallError exampleError)
   \<and> attached (SetAttached (NewChannelLogForSend [] 0 mockChannel []) True)
   \<and> attached (calls noDirective (SetAttached (NewChannelLogForSend [] 0 mockChannel []) True)
        [CallHTTP exampleTrace, CallEnd 7, CallSetAttached True, CallError exampleError])
   \<and> \<not> attached (NewChannelLogForSend [] 0 mockChannel [])"
  using attached_starts_false_and_stays [of "[]" 0 ChannelLogTypeUnknown mockChannel None "[]"
      "SetAttached (NewChannelLogForSend [] 0 mockChannel []) True" True noDirective
      "CallSetAttached True"
      "[CallHTTP exampleTrace, CallEnd 7, CallSetAttached True, CallError exampleError]"]
  by (simp add: SetAttached_def)

text \<open>
  C7 as stated fails: \<open>SetAttached\<close> takes the new value as its argument, so a flag that
  was set to true is false again after \<open>SetAttached(false)\<close>.
\<close>

theorem attached_reverted_counterexample:
  "attached (SetAttached (NewChannelLogForSend [] 0 mockChannel []) True)
   \<and> \<not> attached (SetAttached (SetAttached (NewChannelLogForSend [] 0 mockChannel []) True) False)"
  by (simp add: SetAttached_def)













end
